theory Spec2Isabelle
  imports Main
begin

section \<open>Python values, exceptions and dictionaries\<close>

text \<open>
  The exceptions the serializer can meet. The engine's handler names exactly the classes
  \<open>KeyError\<close> and \<open>AttributeError\<close>; every other class is a separate constructor here
  (an exception class derived from one of the two is identified with its base).
\<close>

datatype py_error =
    KeyError
  | AttributeError
  | TypeError
  | IndexError
  | ValueError
  | RuntimeError string
  | OtherError string

text \<open>
  The values that flow through a serialization. A subject is an object (its attributes),
  a dict (string keys, in insertion order) or any other value; \<open>PCallable r\<close> is a
  zero-argument callable whose call has the outcome \<open>r\<close>.
\<close>

datatype pyval =
    PNone
  | PBool bool
  | PInt int
  | PStr string
  | PList "pyval list"
  | PDict "(string \<times> pyval) list"
  | PObj "(string \<times> pyval) list"
  | PCallable "py_error + pyval"

type_synonym 'a result = "py_error + 'a"

text \<open>\<open>d[k] = x\<close> on an insertion-ordered dict: an existing key keeps its place.\<close>

fun dict_setitem :: "'k \<Rightarrow> 'x \<Rightarrow> ('k \<times> 'x) list \<Rightarrow> ('k \<times> 'x) list" where
  "dict_setitem k x [] = [(k, x)]"
| "dict_setitem k x ((k', x') # d) =
     (if k' = k then (k', x) # d else (k', x') # dict_setitem k x d)"

text \<open>\<open>d.update(other)\<close>: the items of \<open>other\<close> are stored one by one, in order.\<close>

fun dict_update :: "('k \<times> 'x) list \<Rightarrow> ('k \<times> 'x) list \<Rightarrow> ('k \<times> 'x) list" where
  "dict_update d [] = d"
| "dict_update d ((k, x) # other) = dict_update (dict_setitem k x d) other"

definition dict_keys :: "('k \<times> 'x) list \<Rightarrow> 'k list" where
  "dict_keys d = map fst d"

definition dict_get :: "('k \<times> 'x) list \<Rightarrow> 'k \<Rightarrow> 'x option" where
  "dict_get d k = map_of d k"

text \<open>\<open>result()\<close>: calling a value that is not callable raises \<open>TypeError\<close>.\<close>

fun py_call :: "pyval \<Rightarrow> pyval result" where
  "py_call (PCallable r) = r"
| "py_call _ = Inl TypeError"

section \<open>Serializer instances and accessors\<close>

text \<open>
  The attributes \<open>Serializer.__init__\<close> and \<open>Field.__init__\<close> set on a serializer
  instance (\<open>self.instance\<close>, \<open>self.many\<close>, \<open>self._data\<close>, and the four of a field).
\<close>

record serializer =
  ser_instance :: pyval
  ser_many :: bool
  ser_data :: pyval
  ser_attr :: "string option"
  ser_call :: bool
  ser_label :: "string option"
  ser_required :: bool

text \<open>
  A getter is a Python callable of one argument (the subject) or of two (the serializer
  instance, then the subject). Calling it with the wrong number of arguments raises
  \<open>TypeError\<close>.
\<close>

datatype pygetter =
    Getter1 "pyval \<Rightarrow> pyval result"
  | Getter2 "serializer \<Rightarrow> pyval \<Rightarrow> pyval result"

fun call_getter1 :: "pygetter \<Rightarrow> pyval \<Rightarrow> pyval result" where
  "call_getter1 (Getter1 g) x = g x"
| "call_getter1 (Getter2 g) x = Inl TypeError"

fun call_getter2 :: "pygetter \<Rightarrow> serializer \<Rightarrow> pyval \<Rightarrow> pyval result" where
  "call_getter2 (Getter2 g) s x = g s x"
| "call_getter2 (Getter1 g) s x = Inl TypeError"

section \<open>The serialization engine\<close>

text \<open>
  A compiled field is the tuple \<open>(name, getter, to_value, call, required, pass_self)\<close>
  built by \<open>_compile_field_to_tuple\<close>; \<open>to_value\<close> is \<open>None\<close> when no converter is bound.
\<close>

type_synonym converter = "pyval \<Rightarrow> pyval result"

text \<open>
  What can stand in the \<open>to_value\<close> slot of a record is a Python object that is called
  with one argument. Its truth value matters as well, because the engine tests the slot
  with \<open>if to_value:\<close>: functions, methods and types are truthy, while an instance of a
  class with \<open>__call__\<close> is falsy when its \<open>__bool__\<close> says so or its \<open>__len__\<close> is zero.
\<close>

datatype pycallable = Callable (truthy: bool) (call_with: converter)

type_synonym compiled_field =
  "string \<times> pygetter \<times> pycallable option \<times> bool \<times> bool \<times> bool"

text \<open>The handler \<open>except (KeyError, AttributeError)\<close>.\<close>

definition is_retrieval_failure :: "py_error \<Rightarrow> bool" where
  "is_retrieval_failure e = (e = KeyError \<or> e = AttributeError)"

text \<open>The two guarded statements \<open>if call: result = result()\<close> and
  \<open>if to_value: result = to_value(result)\<close>. The second guard is a truth test: it skips
  an unbound converter (\<open>None\<close>) and also a bound one that is falsy.\<close>

definition call_step :: "bool \<Rightarrow> pyval \<Rightarrow> pyval result" where
  "call_step call result = (if call then py_call result else Inr result)"

definition to_value_step :: "pycallable option \<Rightarrow> pyval \<Rightarrow> pyval result" where
  "to_value_step to_value result =
     (case to_value of
        None \<Rightarrow> Inr result
      | Some c \<Rightarrow> if truthy c then call_with c result else Inr result)"

definition call_then_convert :: "bool \<Rightarrow> pycallable option \<Rightarrow> pyval \<Rightarrow> pyval result" where
  "call_then_convert call to_value result =
     (case call_step call result of
        Inl e \<Rightarrow> Inl e
      | Inr called \<Rightarrow> to_value_step to_value called)"

text \<open>
  The loop of \<open>Serializer._serialize\<close> over the plan, with the output dict \<open>v\<close> built so
  far. \<open>Inl e\<close> is the exception leaving the call; \<open>continue\<close> is the recursive call with
  \<open>v\<close> unchanged.
\<close>

fun serialize_loop ::
  "serializer \<Rightarrow> pyval \<Rightarrow> (string \<times> pyval) list \<Rightarrow> compiled_field list
     \<Rightarrow> (string \<times> pyval) list result" where
  "serialize_loop self inst v [] = Inr v"
| "serialize_loop self inst v ((name, getter, to_value, call, required, pass_self) # plan) =
     (if pass_self then
        (case call_getter2 getter self inst of
           Inl e \<Rightarrow> Inl e
         | Inr result \<Rightarrow> serialize_loop self inst (dict_setitem name result v) plan)
      else
        (case call_getter1 getter inst of
           Inl e \<Rightarrow>
             if is_retrieval_failure e then
               (if required then Inl e else serialize_loop self inst v plan)
             else Inl e
         | Inr result \<Rightarrow>
             if required \<or> result \<noteq> PNone then
               (case call_then_convert call to_value result of
                  Inl e \<Rightarrow> Inl e
                | Inr converted \<Rightarrow>
                    serialize_loop self inst (dict_setitem name converted v) plan)
             else serialize_loop self inst (dict_setitem name result v) plan))"

definition Serializer_serialize ::
  "serializer \<Rightarrow> pyval \<Rightarrow> compiled_field list \<Rightarrow> pyval result" where
  "Serializer_serialize self inst plan =
     (case serialize_loop self inst [] plan of
        Inl e \<Rightarrow> Inl e
      | Inr v \<Rightarrow> Inr (PDict v))"

text \<open>
  \<open>Serializer.to_value\<close>. With \<open>many\<close> set the subject is iterated: a list yields its
  elements, a dict its keys, a string its characters; the other values of the model are
  not iterable (\<open>TypeError\<close>).
\<close>

fun py_iter :: "pyval \<Rightarrow> pyval list result" where
  "py_iter (PList xs) = Inr xs"
| "py_iter (PDict d) = Inr (map (\<lambda>(k, x). PStr k) d)"
| "py_iter (PStr s) = Inr (map (\<lambda>c. PStr [c]) s)"
| "py_iter _ = Inl TypeError"

fun serialize_each :: "serializer \<Rightarrow> compiled_field list \<Rightarrow> pyval list \<Rightarrow> pyval list result" where
  "serialize_each self plan [] = Inr []"
| "serialize_each self plan (ob # obs) =
     (case Serializer_serialize self ob plan of
        Inl e \<Rightarrow> Inl e
      | Inr x \<Rightarrow>
          (case serialize_each self plan obs of
             Inl e \<Rightarrow> Inl e
           | Inr xs \<Rightarrow> Inr (x # xs)))"

definition to_value_with ::
  "compiled_field list \<Rightarrow> serializer \<Rightarrow> pyval \<Rightarrow> pyval result" where
  "to_value_with plan self inst =
     (if ser_many self then
        (case py_iter inst of
           Inl e \<Rightarrow> Inl e
         | Inr obs \<Rightarrow>
             (case serialize_each self plan obs of
                Inl e \<Rightarrow> Inl e
              | Inr xs \<Rightarrow> Inr (PList xs)))
      else Serializer_serialize self inst plan)"

section \<open>Field descriptors\<close>

text \<open>
  What \<open>self.to_value\<close> can be:
  \<^item> the bound method \<open>Field.to_value\<close>, which returns its argument and carries the
    attribute \<open>_serpy_base_implementation = True\<close>;
  \<^item> an object that is not a bound method: the callable of a \<open>staticmethod\<close> (as in
    \<open>StrField\<close>, \<open>IntField\<close>, \<open>FloatField\<close>, \<open>BoolField\<close>) or one stored on the instance;
  \<^item> a bound method defined in a subclass, with what
    \<open>getattr(to_value, '_serpy_base_implementation', False)\<close> reads on it. The attribute
    is read at run time, so a subclass method carries it when its function was given it
    (for instance by \<open>functools.wraps(Field.to_value)\<close>, which copies the attributes).
\<close>

datatype to_value_attr =
    Field_to_value
  | StaticCallable pycallable
  | SubclassMethod bool converter

fun isinstance_MethodType :: "to_value_attr \<Rightarrow> bool" where
  "isinstance_MethodType Field_to_value = True"
| "isinstance_MethodType (StaticCallable c) = False"
| "isinstance_MethodType (SubclassMethod marker f) = True"

text \<open>The attribute is read on bound methods only.\<close>

fun serpy_base_implementation :: "to_value_attr \<Rightarrow> bool" where
  "serpy_base_implementation Field_to_value = True"
| "serpy_base_implementation (StaticCallable c) = False"
| "serpy_base_implementation (SubclassMethod marker f) = marker"


text \<open>The object \<open>field.to_value\<close> itself, as it is stored in a record: bound methods
  are truthy.\<close>

fun to_value_object :: "to_value_attr \<Rightarrow> pycallable" where
  "to_value_object Field_to_value = Callable True (\<lambda>x. Inr x)"
| "to_value_object (StaticCallable c) = c"
| "to_value_object (SubclassMethod marker f) = Callable True f"

text \<open>
  What \<open>self.as_getter\<close> can be: \<open>Field.as_getter\<close>, \<open>MethodField.as_getter\<close>, or an
  override in a subclass (here a function of the field's name).
\<close>

datatype as_getter_attr =
    Field_as_getter
  | MethodField_as_getter
  | Custom_as_getter "string \<Rightarrow> pygetter option result"

record pyfield =
  field_attr :: "string option"
  field_call :: bool
  field_label :: "string option"
  field_required :: bool
  getter_takes_serializer :: bool
  field_to_value :: to_value_attr
  field_as_getter :: as_getter_attr
  field_method :: "string option"

text \<open>
  Keyword arguments of a constructor. \<open>Field.__init__(self, attr=None, call=False,
  label=None, required=True)\<close> accepts four names; any other raises \<open>TypeError\<close>.
\<close>

datatype kwarg =
    KwAttr "string option"
  | KwCall bool
  | KwLabel "string option"
  | KwRequired bool
  | KwUnexpected string pyval

fun set_kwarg :: "kwarg \<Rightarrow> pyfield \<Rightarrow> pyfield result" where
  "set_kwarg (KwAttr a) f = Inr (f\<lparr>field_attr := a\<rparr>)"
| "set_kwarg (KwCall c) f = Inr (f\<lparr>field_call := c\<rparr>)"
| "set_kwarg (KwLabel l) f = Inr (f\<lparr>field_label := l\<rparr>)"
| "set_kwarg (KwRequired r) f = Inr (f\<lparr>field_required := r\<rparr>)"
| "set_kwarg (KwUnexpected n x) f = Inl TypeError"

fun set_kwargs :: "kwarg list \<Rightarrow> pyfield \<Rightarrow> pyfield result" where
  "set_kwargs [] f = Inr f"
| "set_kwargs (kw # kws) f =
     (case set_kwarg kw f of Inl e \<Rightarrow> Inl e | Inr f' \<Rightarrow> set_kwargs kws f')"

definition Field_defaults :: pyfield where
  "Field_defaults =
     \<lparr>field_attr = None, field_call = False, field_label = None, field_required = True,
      getter_takes_serializer = False, field_to_value = Field_to_value,
      field_as_getter = Field_as_getter, field_method = None\<rparr>"

definition Field_init :: "kwarg list \<Rightarrow> pyfield result" where
  "Field_init kwargs = set_kwargs kwargs Field_defaults"

text \<open>
  The scalar fields replace \<open>to_value\<close> by a \<open>staticmethod\<close> of a builtin coercion
  (\<open>six.text_type\<close>, \<open>int\<close>, \<open>float\<close>, \<open>bool\<close>), which is a parameter here. The four
  are types, hence truthy.
\<close>

definition scalar_field :: "converter \<Rightarrow> kwarg list \<Rightarrow> pyfield result" where
  "scalar_field coerce kwargs =
     (case Field_init kwargs of
        Inl e \<Rightarrow> Inl e
      | Inr f \<Rightarrow> Inr (f\<lparr>field_to_value := StaticCallable (Callable True coerce)\<rparr>))"

definition StrField :: "converter \<Rightarrow> kwarg list \<Rightarrow> pyfield result" where
  "StrField text_type = scalar_field text_type"

definition IntField :: "converter \<Rightarrow> kwarg list \<Rightarrow> pyfield result" where
  "IntField py_int = scalar_field py_int"

definition FloatField :: "converter \<Rightarrow> kwarg list \<Rightarrow> pyfield result" where
  "FloatField py_float = scalar_field py_float"

definition BoolField :: "converter \<Rightarrow> kwarg list \<Rightarrow> pyfield result" where
  "BoolField py_bool = scalar_field py_bool"

definition MethodField :: "string option \<Rightarrow> kwarg list \<Rightarrow> pyfield result" where
  "MethodField method kwargs =
     (case Field_init kwargs of
        Inl e \<Rightarrow> Inl e
      | Inr f \<Rightarrow>
          Inr (f\<lparr>getter_takes_serializer := True, field_as_getter := MethodField_as_getter,
                 field_method := method\<rparr>))"

definition Field_is_to_value_overridden :: "pyfield \<Rightarrow> bool" where
  "Field_is_to_value_overridden self =
     (let to_value = field_to_value self in
      if \<not> isinstance_MethodType to_value then True
      else \<not> serpy_base_implementation to_value)"

section \<open>Serializer classes\<close>

text \<open>
  A class is its own \<open>__dict__\<close>, the rest of its \<open>__mro__\<close> and the answer of
  \<open>issubclass(cls, SerializerBase)\<close>. The entries of a class body that matter are fields,
  methods (getters), \<open>default_getter\<close>, and the two attributes the metaclass stores. The
  methods that \<open>Serializer\<close> and \<open>Field\<close> define themselves (\<open>to_value\<close>, \<open>data\<close>, ...) are
  the functions of this theory and not entries, so a \<open>MethodField\<close> can name the methods
  of a class body but not those.
\<close>

datatype class_attr =
    AttrField pyfield
  | AttrMethod pygetter
  | AttrDefaultGetter "string \<Rightarrow> pygetter"
  | AttrFieldMap "(string \<times> pyfield) list"
  | AttrCompiledFields "compiled_field list"
  | AttrOther pyval

datatype pyclass =
  PyClass (issubclass_SerializerBase: bool)
          (cls_dict: "(string \<times> class_attr) list")
          (mro_tail: "pyclass list")

definition cls_mro :: "pyclass \<Rightarrow> pyclass list" where
  "cls_mro c = c # mro_tail c"

text \<open>Attribute lookup on a class: the first \<open>__dict__\<close> along the \<open>__mro__\<close> that has
  the name.\<close>

fun mro_lookup :: "string \<Rightarrow> pyclass list \<Rightarrow> class_attr result" where
  "mro_lookup name [] = Inl AttributeError"
| "mro_lookup name (c # cs) =
     (case map_of (cls_dict c) name of
        Some a \<Rightarrow> Inr a
      | None \<Rightarrow> mro_lookup name cs)"

definition class_getattr :: "pyclass \<Rightarrow> string \<Rightarrow> class_attr result" where
  "class_getattr c name = mro_lookup name (cls_mro c)"

text \<open>\<open>cls._field_map\<close>, used as the argument of \<open>dict.update\<close>.\<close>

definition class_field_map :: "pyclass \<Rightarrow> (string \<times> pyfield) list result" where
  "class_field_map c =
     (case class_getattr c ''_field_map'' of
        Inl e \<Rightarrow> Inl e
      | Inr (AttrFieldMap m) \<Rightarrow> Inr m
      | Inr _ \<Rightarrow> Inl TypeError)"

text \<open>\<open>serializer_cls.default_getter(key)\<close>.\<close>

definition class_default_getter :: "pyclass \<Rightarrow> string \<Rightarrow> pygetter result" where
  "class_default_getter c key =
     (case class_getattr c ''default_getter'' of
        Inl e \<Rightarrow> Inl e
      | Inr (AttrDefaultGetter dg) \<Rightarrow> Inr (dg key)
      | Inr _ \<Rightarrow> Inl TypeError)"

text \<open>\<open>self._compiled_fields\<close>.\<close>

definition class_compiled_fields :: "pyclass \<Rightarrow> compiled_field list result" where
  "class_compiled_fields c =
     (case class_getattr c ''_compiled_fields'' of
        Inl e \<Rightarrow> Inl e
      | Inr (AttrCompiledFields plan) \<Rightarrow> Inr plan
      | Inr _ \<Rightarrow> Inl TypeError)"

subsection \<open>The default getters of the standard library\<close>

text \<open>
  \<open>operator.attrgetter(attr)\<close> follows a dotted path of attribute names and
  \<open>operator.itemgetter(key)\<close> subscripts with \<open>key\<close>. Only objects carry attributes in
  the model (the attributes that Python's own integers, strings, lists and dicts have,
  such as \<open>real\<close> or \<open>keys\<close>, are left out), and only dicts can be subscripted with a
  string. The statements about the engine hold for every getter.
\<close>

fun py_getattr :: "pyval \<Rightarrow> string \<Rightarrow> pyval result" where
  "py_getattr (PObj attrs) name =
     (case map_of attrs name of None \<Rightarrow> Inl AttributeError | Some x \<Rightarrow> Inr x)"
| "py_getattr _ name = Inl AttributeError"

fun py_getitem :: "pyval \<Rightarrow> string \<Rightarrow> pyval result" where
  "py_getitem (PDict d) key =
     (case map_of d key of None \<Rightarrow> Inl KeyError | Some x \<Rightarrow> Inr x)"
| "py_getitem _ key = Inl TypeError"

fun split_dots :: "string \<Rightarrow> string list" where
  "split_dots [] = [[]]"
| "split_dots (c # cs) =
     (if c = CHR ''.'' then [] # split_dots cs
      else (case split_dots cs of
              [] \<Rightarrow> [[c]]
            | w # ws \<Rightarrow> (c # w) # ws))"

fun getattr_path :: "string list \<Rightarrow> pyval \<Rightarrow> pyval result" where
  "getattr_path [] ob = Inr ob"
| "getattr_path (n # ns) ob =
     (case py_getattr ob n of Inl e \<Rightarrow> Inl e | Inr x \<Rightarrow> getattr_path ns x)"

definition attrgetter :: "string \<Rightarrow> pygetter" where
  "attrgetter attr = Getter1 (getattr_path (split_dots attr))"

definition itemgetter :: "string \<Rightarrow> pygetter" where
  "itemgetter key = Getter1 (\<lambda>ob. py_getitem ob key)"

subsection \<open>Compiling a field\<close>

text \<open>\<open>x or name\<close> for an optional string \<open>x\<close>: \<open>None\<close> and the empty string are falsy.\<close>

definition or_name :: "string option \<Rightarrow> string \<Rightarrow> string" where
  "or_name x name = (case x of None \<Rightarrow> name | Some s \<Rightarrow> if s = [] then name else s)"

text \<open>
  \<open>getattr(serializer_cls, method_name)\<close> as the getter of a \<open>MethodField\<close>: a method is
  the getter, \<open>None\<close> is \<open>None\<close>, and any other attribute is a value that raises
  \<open>TypeError\<close> when called as \<open>getter(self, instance)\<close>.
\<close>

fun attr_as_getter :: "class_attr \<Rightarrow> pygetter option" where
  "attr_as_getter (AttrMethod g) = Some g"
| "attr_as_getter (AttrOther PNone) = None"
| "attr_as_getter _ = Some (Getter2 (\<lambda>s ob. Inl TypeError))"

definition as_getter :: "pyfield \<Rightarrow> string \<Rightarrow> pyclass \<Rightarrow> pygetter option result" where
  "as_getter self serializer_field_name serializer_cls =
     (case field_as_getter self of
        Field_as_getter \<Rightarrow> Inr None
      | MethodField_as_getter \<Rightarrow>
          (let method_name =
             (case field_method self of
                None \<Rightarrow> ''get_'' @ serializer_field_name
              | Some m \<Rightarrow> m)
           in case class_getattr serializer_cls method_name of
                Inl e \<Rightarrow> Inl e
              | Inr a \<Rightarrow> Inr (attr_as_getter a))
      | Custom_as_getter g \<Rightarrow> g serializer_field_name)"

definition compile_field_to_tuple :: "pyfield \<Rightarrow> string \<Rightarrow> pyclass \<Rightarrow> compiled_field result" where
  "compile_field_to_tuple field name serializer_cls =
     (case as_getter field name serializer_cls of
        Inl e \<Rightarrow> Inl e
      | Inr resolved \<Rightarrow>
          (case (case resolved of
                   None \<Rightarrow> class_default_getter serializer_cls (or_name (field_attr field) name)
                 | Some g \<Rightarrow> Inr g) of
             Inl e \<Rightarrow> Inl e
           | Inr getter \<Rightarrow>
               (let to_value =
                      (if Field_is_to_value_overridden field
                       then Some (to_value_object (field_to_value field))
                       else None);
                    name' = or_name (field_label field) name
                in Inr (name', getter, to_value, field_call field, field_required field,
                        getter_takes_serializer field))))"

subsection \<open>The metaclass\<close>

text \<open>The loop of \<open>_get_fields\<close> over \<open>serializer_cls.__mro__[::-1]\<close>.\<close>

fun merge_field_maps ::
  "(string \<times> pyfield) list \<Rightarrow> pyclass list \<Rightarrow> (string \<times> pyfield) list result" where
  "merge_field_maps field_map [] = Inr field_map"
| "merge_field_maps field_map (c # cs) =
     (if issubclass_SerializerBase c then
        (case class_field_map c of
           Inl e \<Rightarrow> Inl e
         | Inr m \<Rightarrow> merge_field_maps (dict_update field_map m) cs)
      else merge_field_maps field_map cs)"

definition SerializerMeta_get_fields ::
  "(string \<times> pyfield) list \<Rightarrow> pyclass \<Rightarrow> (string \<times> pyfield) list result" where
  "SerializerMeta_get_fields direct_fields serializer_cls =
     (case merge_field_maps [] (rev (cls_mro serializer_cls)) of
        Inl e \<Rightarrow> Inl e
      | Inr field_map \<Rightarrow> Inr (dict_update field_map direct_fields))"

fun SerializerMeta_compile_fields ::
  "(string \<times> pyfield) list \<Rightarrow> pyclass \<Rightarrow> compiled_field list result" where
  "SerializerMeta_compile_fields [] serializer_cls = Inr []"
| "SerializerMeta_compile_fields ((name, field) # field_map) serializer_cls =
     (case compile_field_to_tuple field name serializer_cls of
        Inl e \<Rightarrow> Inl e
      | Inr t \<Rightarrow>
          (case SerializerMeta_compile_fields field_map serializer_cls of
             Inl e \<Rightarrow> Inl e
           | Inr ts \<Rightarrow> Inr (t # ts)))"

text \<open>
  \<open>SerializerMeta.__new__\<close>. \<open>attrs\<close> is the class body in order; \<open>bases_mro\<close> is the
  linearization of the bases that \<open>type.__new__\<close> computes, so the new class is a
  subclass of \<open>SerializerBase\<close> when one of them is.
\<close>

fun collect_direct_fields ::
  "(string \<times> class_attr) list \<Rightarrow> (string \<times> pyfield) list \<Rightarrow> (string \<times> pyfield) list" where
  "collect_direct_fields [] direct_fields = direct_fields"
| "collect_direct_fields ((attr_name, a) # attrs) direct_fields =
     (case a of
        AttrField field \<Rightarrow>
          collect_direct_fields attrs (dict_setitem attr_name field direct_fields)
      | _ \<Rightarrow> collect_direct_fields attrs direct_fields)"

definition del_keys :: "'k list \<Rightarrow> ('k \<times> 'x) list \<Rightarrow> ('k \<times> 'x) list" where
  "del_keys ks d = filter (\<lambda>(k, x). k \<notin> set ks) d"

definition type_new :: "(string \<times> class_attr) list \<Rightarrow> pyclass list \<Rightarrow> pyclass" where
  "type_new attrs bases_mro =
     PyClass (list_ex issubclass_SerializerBase bases_mro) attrs bases_mro"

definition SerializerMeta_new ::
  "(string \<times> class_attr) list \<Rightarrow> pyclass list \<Rightarrow> pyclass result" where
  "SerializerMeta_new attrs bases_mro =
     (let direct_fields = collect_direct_fields attrs [];
          attrs' = del_keys (dict_keys direct_fields) attrs;
          real_cls = type_new attrs' bases_mro
      in case SerializerMeta_get_fields direct_fields real_cls of
           Inl e \<Rightarrow> Inl e
         | Inr field_map \<Rightarrow>
             (case SerializerMeta_compile_fields field_map real_cls of
                Inl e \<Rightarrow> Inl e
              | Inr compiled_fields \<Rightarrow>
                  Inr (PyClass (issubclass_SerializerBase real_cls)
                         (dict_setitem ''_compiled_fields'' (AttrCompiledFields compiled_fields)
                            (dict_setitem ''_field_map'' (AttrFieldMap field_map)
                               (cls_dict real_cls)))
                         (mro_tail real_cls))))"

text \<open>The classes of the module: \<open>object\<close>, \<open>Field\<close>, \<open>SerializerBase\<close>, and
  \<open>Serializer\<close> and \<open>DictSerializer\<close> as the metaclass builds them.\<close>

definition object_cls :: pyclass where
  "object_cls = PyClass False [] []"

definition Field_cls :: pyclass where
  "Field_cls = PyClass False [] [object_cls]"

definition SerializerBase_cls :: pyclass where
  "SerializerBase_cls = PyClass True [(''_field_map'', AttrFieldMap [])] [Field_cls, object_cls]"

definition Serializer_cls :: pyclass where
  "Serializer_cls =
     PyClass True
       [(''default_getter'', AttrDefaultGetter attrgetter),
        (''_field_map'', AttrFieldMap []),
        (''_compiled_fields'', AttrCompiledFields [])]
       [SerializerBase_cls, Field_cls, object_cls]"

definition DictSerializer_cls :: pyclass where
  "DictSerializer_cls =
     PyClass True
       [(''default_getter'', AttrDefaultGetter itemgetter),
        (''_field_map'', AttrFieldMap []),
        (''_compiled_fields'', AttrCompiledFields [])]
       [Serializer_cls, SerializerBase_cls, Field_cls, object_cls]"

section \<open>Serializer instances\<close>

text \<open>\<open>Serializer.__init__(self, instance=None, many=False, data=None, context=None,
  **kwargs)\<close>; the result is the initialised instance.\<close>

definition Serializer_init ::
  "pyval \<Rightarrow> bool \<Rightarrow> pyval \<Rightarrow> pyval \<Rightarrow> kwarg list \<Rightarrow> serializer result" where
  "Serializer_init inst many_flag data_arg context kwargs =
     (if data_arg \<noteq> PNone then
        Inl (RuntimeError ''serpy serializers do not support input validation'')
      else
        (case Field_init kwargs of
           Inl e \<Rightarrow> Inl e
         | Inr f \<Rightarrow>
             Inr \<lparr>ser_instance = inst, ser_many = many_flag, ser_data = PNone,
                  ser_attr = field_attr f, ser_call = field_call f,
                  ser_label = field_label f, ser_required = field_required f\<rparr>))"

definition Serializer_to_value :: "pyclass \<Rightarrow> serializer \<Rightarrow> pyval \<Rightarrow> pyval result" where
  "Serializer_to_value cls self inst =
     (case class_compiled_fields cls of
        Inl e \<Rightarrow> Inl e
      | Inr plan \<Rightarrow> to_value_with plan self inst)"

text \<open>
  The property \<open>data\<close> of an instance of class \<open>cls\<close>: the value returned and the instance
  afterwards.
\<close>

definition Serializer_data :: "pyclass \<Rightarrow> serializer \<Rightarrow> (pyval \<times> serializer) result" where
  "Serializer_data cls self =
     (if ser_data self = PNone then
        (case Serializer_to_value cls self (ser_instance self) of
           Inl e \<Rightarrow> Inl e
         | Inr d \<Rightarrow> Inr (d, self\<lparr>ser_data := d\<rparr>))
      else Inr (ser_data self, self))"

section \<open>A reference engine that always applies the transform\<close>










section \<open>Vocabulary for the merge order\<close>

text \<open>\<open>unseen S xs\<close> keeps the elements of \<open>xs\<close> that are not in \<open>S\<close>, each at its first
  occurrence; \<open>first_occurrences xs\<close> is \<open>xs\<close> without its repetitions.\<close>

fun unseen :: "'a set \<Rightarrow> 'a list \<Rightarrow> 'a list" where
  "unseen S [] = []"
| "unseen S (x # xs) = (if x \<in> S then unseen S xs else x # unseen (insert x S) xs)"

definition first_occurrences :: "'a list \<Rightarrow> 'a list" where
  "first_occurrences xs = unseen {} xs"

text \<open>The field maps that the loop of \<open>_get_fields\<close> reads, in the order it reads them.\<close>

fun ancestor_field_maps :: "pyclass list \<Rightarrow> (string \<times> pyfield) list list result" where
  "ancestor_field_maps [] = Inr []"
| "ancestor_field_maps (c # cs) =
     (if issubclass_SerializerBase c then
        (case class_field_map c of
           Inl e \<Rightarrow> Inl e
         | Inr m \<Rightarrow>
             (case ancestor_field_maps cs of
                Inl e \<Rightarrow> Inl e
              | Inr ms \<Rightarrow> Inr (m # ms)))
      else ancestor_field_maps cs)"

section \<open>Example values\<close>

definition example_self :: serializer where
  "example_self =
     \<lparr>ser_instance = PNone, ser_many = False, ser_data = PNone, ser_attr = None,
      ser_call = False, ser_label = None, ser_required = True\<rparr>"

definition example_user :: pyval where
  "example_user = PObj [(''id'', PInt 7), (''nickname'', PNone)]"

definition example_id_field :: compiled_field where
  "example_id_field = (''id'', attrgetter ''id'', None, False, True, False)"

text \<open>A converter that accepts \<open>None\<close> and strings and rejects the rest.\<close>

definition describe_value :: converter where
  "describe_value x =
     (case x of
        PNone \<Rightarrow> Inr (PStr ''None'')
      | PStr s \<Rightarrow> Inr (PStr s)
      | _ \<Rightarrow> Inl ValueError)"

text \<open>A base class with the fields \<open>a\<close> and \<open>b\<close>, and a class derived from it that
  declares \<open>c\<close> and overrides \<open>a\<close> with an optional field that has a converter.\<close>

definition example_override :: pyfield where
  "example_override =
     Field_defaults\<lparr>field_required := False, field_to_value := StaticCallable (Callable True describe_value)\<rparr>"

definition example_base_attrs :: "(string \<times> class_attr) list" where
  "example_base_attrs = [(''a'', AttrField Field_defaults), (''b'', AttrField Field_defaults)]"

definition example_base_cls :: pyclass where
  "example_base_cls =
     PyClass True
       [(''_field_map'', AttrFieldMap [(''a'', Field_defaults), (''b'', Field_defaults)]),
        (''_compiled_fields'', AttrCompiledFields
           [(''a'', attrgetter ''a'', None, False, True, False),
            (''b'', attrgetter ''b'', None, False, True, False)])]
       (cls_mro Serializer_cls)"

definition example_derived_attrs :: "(string \<times> class_attr) list" where
  "example_derived_attrs = [(''c'', AttrField Field_defaults), (''a'', AttrField example_override)]"

definition example_derived_cls :: pyclass where
  "example_derived_cls =
     PyClass True
       [(''_field_map'', AttrFieldMap
           [(''a'', example_override), (''b'', Field_defaults), (''c'', Field_defaults)]),
        (''_compiled_fields'', AttrCompiledFields
           [(''a'', attrgetter ''a'', Some (Callable True describe_value), False, False, False),
            (''b'', attrgetter ''b'', None, False, True, False),
            (''c'', attrgetter ''c'', None, False, True, False)])]
       (cls_mro example_base_cls)"

text \<open>A field whose \<open>attr\<close> and \<open>label\<close> are the empty string, and a dict that has the
  empty string among its keys.\<close>

definition example_empty_names :: pyfield where
  "example_empty_names = Field_defaults\<lparr>field_attr := Some [], field_label := Some []\<rparr>"

definition example_record :: pyval where
  "example_record = PDict [([], PInt 1), (''foo'', PInt 2)]"

text \<open>Subjects and a serializer instance for them.\<close>

definition example_foo :: pyval where
  "example_foo = PObj [(''id'', PInt 7), (''bar'', PInt 5), (''baz'', PInt 10)]"

text \<open>The methods of the documentation's \<open>FooSerializer\<close>.\<close>

definition int_attrs :: "pyval \<Rightarrow> (int \<times> int) result" where
  "int_attrs foo_obj =
     (case py_getattr foo_obj ''bar'' of
        Inl e \<Rightarrow> Inl e
      | Inr (PInt a) \<Rightarrow>
          (case py_getattr foo_obj ''baz'' of
             Inl e \<Rightarrow> Inl e
           | Inr (PInt b) \<Rightarrow> Inr (a, b)
           | Inr _ \<Rightarrow> Inl TypeError)
      | Inr _ \<Rightarrow> Inl TypeError)"

definition get_plus :: "serializer \<Rightarrow> pyval \<Rightarrow> pyval result" where
  "get_plus self foo_obj =
     (case int_attrs foo_obj of Inl e \<Rightarrow> Inl e | Inr (a, b) \<Rightarrow> Inr (PInt (a + b)))"

definition do_minus :: "serializer \<Rightarrow> pyval \<Rightarrow> pyval result" where
  "do_minus self foo_obj =
     (case int_attrs foo_obj of Inl e \<Rightarrow> Inl e | Inr (a, b) \<Rightarrow> Inr (PInt (a - b)))"

definition example_named :: pyval where
  "example_named =
     PObj [(''id'', PInt 7), (''nickname'', PInt 3), (''name'', PCallable (Inl KeyError))]"

definition example_ab :: pyval where
  "example_ab = PObj [(''a'', PStr ''x''), (''b'', PInt 2), (''c'', PNone)]"

definition example_ab_self :: serializer where
  "example_ab_self =
     \<lparr>ser_instance = example_ab, ser_many = False, ser_data = PNone, ser_attr = None,
      ser_call = False, ser_label = None, ser_required = True\<rparr>"

definition example_ab_data :: pyval where
  "example_ab_data = PDict [(''a'', PStr ''x''), (''b'', PInt 2)]"

definition example_labelled :: pyfield where
  "example_labelled =
     Field_defaults\<lparr>field_attr := Some ''first_name'', field_label := Some ''First''\<rparr>"







text \<open>The documentation's \<open>FooSerializer\<close>: \<open>plus = MethodField()\<close> and
  \<open>minus = MethodField('do_minus')\<close>, with the two methods.\<close>

definition example_plus :: pyfield where
  "example_plus =
     Field_defaults\<lparr>getter_takes_serializer := True, field_as_getter := MethodField_as_getter\<rparr>"

definition example_minus :: pyfield where
  "example_minus = example_plus\<lparr>field_method := Some ''do_minus''\<rparr>"

definition FooSerializer_attrs :: "(string \<times> class_attr) list" where
  "FooSerializer_attrs =
     [(''plus'', AttrField example_plus),
      (''minus'', AttrField example_minus),
      (''get_plus'', AttrMethod (Getter2 get_plus)),
      (''do_minus'', AttrMethod (Getter2 do_minus))]"

definition FooSerializer_cls :: pyclass where
  "FooSerializer_cls =
     PyClass True
       [(''get_plus'', AttrMethod (Getter2 get_plus)),
        (''do_minus'', AttrMethod (Getter2 do_minus)),
        (''_field_map'', AttrFieldMap [(''plus'', example_plus), (''minus'', example_minus)]),
        (''_compiled_fields'', AttrCompiledFields
           [(''plus'', Getter2 get_plus, None, False, True, True),
            (''minus'', Getter2 do_minus, None, False, True, True)])]
       (cls_mro Serializer_cls)"


section \<open>The loop, field by field\<close>

text \<open>Running the loop over a plan split in two: the second part starts from the dict
  the first part built, unless the first part raised.\<close>

lemma serialize_loop_append:
  "serialize_loop self inst v (pre @ post) =
     (case serialize_loop self inst v pre of
        Inl e \<Rightarrow> Inl e
      | Inr v' \<Rightarrow> serialize_loop self inst v' post)"
proof (induction pre arbitrary: v)
  case Nil
  show ?case by simp
next
  case (Cons t pre)
  obtain name getter to_value call required pass_self
    where t: "t = (name, getter, to_value, call, required, pass_self)"
    by (cases t)
  show ?case
    unfolding t by (simp add: Cons.IH split: sum.splits)
qed

lemma example_id_prefix:
  "serialize_loop example_self example_user [] [example_id_field] = Inr [(''id'', PInt 7)]"
  by (simp add: example_id_field_def example_user_def attrgetter_def call_then_convert_def
      call_step_def to_value_step_def)


lemma example_nickname_lookup:
  "call_getter1 (attrgetter ''nickname'') example_user = Inr PNone"
  by (simp add: example_user_def attrgetter_def)

lemma example_missing_lookup:
  "call_getter1 (attrgetter ''email'') example_user = Inl AttributeError"
  by (simp add: example_user_def attrgetter_def)




text \<open>
  C2. Take any field of a plan that does not ask for the serializer, reached with the
  output dict \<open>v\<close>, whose getter raises \<open>KeyError\<close> or \<open>AttributeError\<close>. If the field is
  required the exception leaves the serialization; if not, nothing is stored for the
  field and the loop goes on with the next field and the same \<open>v\<close>.
\<close>

theorem retrieval_failure_required_or_omitted:
  assumes "serialize_loop self inst [] pre = Inr v"
    and "call_getter1 getter inst = Inl e"
    and "e = KeyError \<or> e = AttributeError"
  shows "serialize_loop self inst [] (pre @ (name, getter, to_value, call, required, False) # post) =
     (if required then Inl e else serialize_loop self inst v post)"
  using assms
  by (auto simp add: serialize_loop_append is_retrieval_failure_def)

text \<open>A missing \<open>email\<close> attribute: fatal when required, left out when optional.\<close>

theorem retrieval_failure_required_or_omitted_witness:
  "serialize_loop example_self example_user []
     ([example_id_field] @ (''email'', attrgetter ''email'', None, False, True, False) # [])
   = Inl AttributeError
   \<and> serialize_loop example_self example_user []
     ([example_id_field] @ (''email'', attrgetter ''email'', None, False, False, False) #
        [(''nick'', attrgetter ''nickname'', None, False, False, False)])
   = Inr [(''id'', PInt 7), (''nick'', PNone)]"
  using retrieval_failure_required_or_omitted [OF example_id_prefix example_missing_lookup,
      of "''email''" None False True "[]"]
    retrieval_failure_required_or_omitted [OF example_id_prefix example_missing_lookup,
      of "''email''" None False False
         "[(''nick'', attrgetter ''nickname'', None, False, False, False)]"]
  by (simp add: example_user_def attrgetter_def)

lemma example_named_prefix:
  "serialize_loop example_self example_named [] [example_id_field] = Inr [(''id'', PInt 7)]"
  by (simp add: example_id_field_def example_named_def attrgetter_def call_then_convert_def
      call_step_def to_value_step_def)


text \<open>
  C4. Take any field of a plan that does not ask for the serializer, whose getter returns
  \<open>result\<close>, and for which the call and conversion steps run (the field is required or
  \<open>result\<close> is not \<open>None\<close>). If the call step raises \<open>e\<close>, or the converter raises \<open>e\<close> on
  the called value, then \<open>e\<close> leaves the serialization, whatever \<open>e\<close> is and whether or
  not the field is required.
\<close>

theorem call_and_conversion_failures_propagate:
  assumes "serialize_loop self inst [] pre = Inr v"
    and "call_getter1 getter inst = Inr result"
    and "required \<or> result \<noteq> PNone"
    and "call_step call result = Inl e \<or>
         (\<exists>called. call_step call result = Inr called \<and> to_value_step to_value called = Inl e)"
  shows "Serializer_serialize self inst
           (pre @ (name, getter, to_value, call, required, False) # post) = Inl e"
  using assms
  by (auto simp add: Serializer_serialize_def serialize_loop_append call_then_convert_def)

text \<open>An optional field: its converter rejects the value \<open>3\<close>, and the callable it is
  asked to call raises \<open>KeyError\<close>; neither is recovered.\<close>

theorem call_and_conversion_failures_propagate_witness:
  "Serializer_serialize example_self example_named
     ([example_id_field] @
        (''nick'', attrgetter ''nickname'', Some (Callable True describe_value), False, False, False) # [])
   = Inl ValueError
   \<and> Serializer_serialize example_self example_named
     ([example_id_field] @
        (''name'', attrgetter ''name'', None, True, False, False) # [])
   = Inl KeyError"
proof -
  have nick: "call_getter1 (attrgetter ''nickname'') example_named = Inr (PInt 3)"
    and name: "call_getter1 (attrgetter ''name'') example_named = Inr (PCallable (Inl KeyError))"
    by (simp_all add: example_named_def attrgetter_def)
  have converter_fails:
    "call_step False (PInt 3) = Inl ValueError \<or>
     (\<exists>called. call_step False (PInt 3) = Inr called \<and>
        to_value_step (Some (Callable True describe_value)) called = Inl ValueError)"
    by (simp add: call_step_def to_value_step_def describe_value_def)
  have call_fails:
    "call_step True (PCallable (Inl KeyError)) = Inl KeyError \<or>
     (\<exists>called. call_step True (PCallable (Inl KeyError)) = Inr called \<and>
        to_value_step None called = Inl KeyError)"
    by (simp add: call_step_def)
  show ?thesis
    using call_and_conversion_failures_propagate
            [OF example_named_prefix nick _ converter_fails, of False "''nick''" "[]"]
          call_and_conversion_failures_propagate
            [OF example_named_prefix name _ call_fails, of False "''name''" "[]"]
    by simp
qed



text \<open>Every \<open>MethodField\<close> compiles to a record that asks for the serializer.\<close>

lemma MethodField_passes_self:
  assumes "MethodField method kwargs = Inr field"
    and "compile_field_to_tuple field name cls =
           Inr (label, getter, to_value, call, required, pass_self)"
  shows "pass_self"
proof -
  from assms(1) have "getter_takes_serializer field"
    by (auto simp add: MethodField_def Field_init_def split: sum.splits)
  with assms(2) show ?thesis
    by (auto simp add: compile_field_to_tuple_def Let_def split: sum.splits)
qed

text \<open>
  C10. Take any field of a plan that does not ask for the serializer, whose getter raises
  an exception \<open>e\<close> that is neither \<open>KeyError\<close> nor \<open>AttributeError\<close>. Then \<open>e\<close> leaves
  the serialization, also when the field is optional.
\<close>

theorem other_retrieval_errors_propagate:
  assumes "serialize_loop self inst [] pre = Inr v"
    and "call_getter1 getter inst = Inl e"
    and "e \<noteq> KeyError" and "e \<noteq> AttributeError"
  shows "Serializer_serialize self inst
           (pre @ (name, getter, to_value, call, required, False) # post) = Inl e"
  using assms
  by (simp add: Serializer_serialize_def serialize_loop_append is_retrieval_failure_def)

text \<open>An optional field read by key from a subject that is an object, hence not
  subscriptable.\<close>

theorem other_retrieval_errors_propagate_witness:
  "Serializer_serialize example_self example_user
     ([example_id_field] @ (''nick'', itemgetter ''nickname'', None, False, False, False) # [])
   = Inl TypeError"
proof -
  have "call_getter1 (itemgetter ''nickname'') example_user = Inl TypeError"
    by (simp add: itemgetter_def example_user_def)
  from other_retrieval_errors_propagate [OF example_id_prefix this, of "''nick''" None False False "[]"]
  show ?thesis by simp
qed

section \<open>Construction and the cached result\<close>

lemma set_kwargs_error: "set_kwargs kwargs f = Inl e \<Longrightarrow> e = TypeError"
proof (induction kwargs arbitrary: f)
  case Nil
  then show ?case by simp
next
  case (Cons kw kwargs)
  then show ?case by (cases kw) (auto split: sum.splits)
qed

text \<open>
  C9. Constructing a serializer with a \<open>data\<close> argument other than \<open>None\<close> raises the
  \<open>RuntimeError\<close> of the module, whatever the other arguments are (no field, no keyword
  argument is looked at before). With \<open>data\<close> left \<open>None\<close> the construction never raises
  a \<open>RuntimeError\<close>.
\<close>

theorem init_rejects_data:
  "(data_arg \<noteq> PNone \<longrightarrow>
      Serializer_init inst many_flag data_arg context kwargs =
        Inl (RuntimeError ''serpy serializers do not support input validation''))
   \<and> (data_arg = PNone \<longrightarrow>
      (\<forall>msg. Serializer_init inst many_flag data_arg context kwargs \<noteq> Inl (RuntimeError msg)))"
  by (auto simp add: Serializer_init_def Field_init_def split: sum.splits dest: set_kwargs_error)

text \<open>With an unknown keyword argument as well: \<open>data\<close> is what is reported; without
  \<open>data\<close> the construction succeeds.\<close>

theorem init_rejects_data_witness:
  "Serializer_init example_user False example_record PNone [KwUnexpected ''flavour'' PNone] =
     Inl (RuntimeError ''serpy serializers do not support input validation'')
   \<and> Serializer_init example_user False PNone PNone [KwRequired False] \<noteq>
     Inl (RuntimeError ''serpy serializers do not support input validation'')"
  using init_rejects_data [of example_record example_user False PNone
          "[KwUnexpected ''flavour'' PNone]"]
        init_rejects_data [of PNone example_user False PNone "[KwRequired False]"]
  by (simp add: example_record_def)

lemma serialize_not_None: "Serializer_serialize self inst plan \<noteq> Inr PNone"
  by (simp add: Serializer_serialize_def split: sum.splits)

lemma to_value_with_not_None: "to_value_with plan self inst \<noteq> Inr PNone"
  by (simp add: to_value_with_def serialize_not_None split: sum.splits)

lemma Serializer_to_value_not_None: "Serializer_to_value cls self inst \<noteq> Inr PNone"
  by (simp add: Serializer_to_value_def to_value_with_not_None split: sum.splits)

text \<open>
  C6. On an instance whose \<open>_data\<close> is still \<open>None\<close>, a read of \<open>data\<close> that returns \<open>d\<close>
  has computed \<open>d\<close> with \<open>to_value\<close> on the instance's subject and has stored it in
  \<open>_data\<close>; every later read of the instance returns \<open>d\<close> again and leaves the instance
  as it is, whatever the compiled plan holds: nothing is computed again.
\<close>

theorem data_is_cached:
  assumes "ser_data self = PNone"
    and "Serializer_data cls self = Inr (d, self')"
  shows "Serializer_to_value cls self (ser_instance self) = Inr d
       \<and> self' = self\<lparr>ser_data := d\<rparr>
       \<and> (\<forall>cls'. Serializer_data cls' self' = Inr (d, self'))"
proof -
  from assms have tv: "Serializer_to_value cls self (ser_instance self) = Inr d"
    and s': "self' = self\<lparr>ser_data := d\<rparr>"
    by (auto simp add: Serializer_data_def split: sum.splits)
  from tv have "d \<noteq> PNone"
    using Serializer_to_value_not_None by metis
  with s' have "Serializer_data cls' self' = Inr (d, self')" for cls'
    by (simp add: Serializer_data_def)
  with tv s' show ?thesis by simp
qed

text \<open>An instance of the example base class, as \<open>__init__\<close> leaves it, read twice.\<close>

theorem data_is_cached_witness:
  "Serializer_init example_ab False PNone PNone [] = Inr example_ab_self
   \<and> Serializer_data example_base_cls example_ab_self =
       Inr (example_ab_data, example_ab_self\<lparr>ser_data := example_ab_data\<rparr>)
   \<and> Serializer_data example_base_cls (example_ab_self\<lparr>ser_data := example_ab_data\<rparr>) =
       Inr (example_ab_data, example_ab_self\<lparr>ser_data := example_ab_data\<rparr>)"
proof -
  have fresh: "ser_data example_ab_self = PNone"
    by (simp add: example_ab_self_def)
  have built: "Serializer_init example_ab False PNone PNone [] = Inr example_ab_self"
    by (simp add: Serializer_init_def Field_init_def Field_defaults_def example_ab_self_def)
  have first: "Serializer_data example_base_cls example_ab_self =
       Inr (example_ab_data, example_ab_self\<lparr>ser_data := example_ab_data\<rparr>)"
    by (simp add: Serializer_data_def Serializer_to_value_def class_compiled_fields_def
        class_getattr_def cls_mro_def example_base_cls_def to_value_with_def
        Serializer_serialize_def call_then_convert_def call_step_def to_value_step_def
        attrgetter_def example_ab_self_def example_ab_def example_ab_data_def)
  from data_is_cached [OF fresh first] built first show ?thesis
    by blast
qed

section \<open>Compiling the plan\<close>

lemmas class_lookup_defs =
  class_field_map_def class_default_getter_def class_compiled_fields_def class_getattr_def
  cls_mro_def

lemmas module_class_defs =
  object_cls_def Field_cls_def SerializerBase_cls_def Serializer_cls_def DictSerializer_cls_def

text \<open>The two example classes are what the metaclass builds from their bodies.\<close>

lemma example_base_built:
  "SerializerMeta_new example_base_attrs (cls_mro Serializer_cls) = Inr example_base_cls"
  by (simp add: SerializerMeta_new_def SerializerMeta_get_fields_def type_new_def
      compile_field_to_tuple_def as_getter_def Field_is_to_value_overridden_def or_name_def
      class_lookup_defs module_class_defs example_base_attrs_def example_base_cls_def
      Field_defaults_def del_keys_def dict_keys_def)

lemma example_derived_built:
  "SerializerMeta_new example_derived_attrs (cls_mro example_base_cls) = Inr example_derived_cls"
  by (simp add: SerializerMeta_new_def SerializerMeta_get_fields_def type_new_def
      compile_field_to_tuple_def as_getter_def Field_is_to_value_overridden_def or_name_def
      class_lookup_defs module_class_defs example_derived_attrs_def example_base_cls_def
      example_derived_cls_def example_override_def
      Field_defaults_def del_keys_def dict_keys_def)

text \<open>\<open>Serializer\<close> and \<open>DictSerializer\<close> are what the metaclass builds from
  \<open>SerializerBase\<close> and a body that sets \<open>default_getter\<close>.\<close>

lemma Serializer_cls_built:
  "SerializerMeta_new [(''default_getter'', AttrDefaultGetter attrgetter)]
     (cls_mro SerializerBase_cls) = Inr Serializer_cls"
  by (simp add: SerializerMeta_new_def SerializerMeta_get_fields_def type_new_def
      class_lookup_defs module_class_defs del_keys_def dict_keys_def)

lemma DictSerializer_cls_built:
  "SerializerMeta_new [(''default_getter'', AttrDefaultGetter itemgetter)]
     (cls_mro Serializer_cls) = Inr DictSerializer_cls"
  by (simp add: SerializerMeta_new_def SerializerMeta_get_fields_def type_new_def
      class_lookup_defs module_class_defs del_keys_def dict_keys_def)

text \<open>The documentation's example: \<open>FooSerializer(foo).data\<close> for \<open>bar = 5\<close> and
  \<open>baz = 10\<close> is \<open>{'plus': 15, 'minus': -5}\<close>.\<close>

lemma FooSerializer_fields:
  "MethodField None [] = Inr example_plus"
  "MethodField (Some ''do_minus'') [] = Inr example_minus"
  by (simp_all add: MethodField_def Field_init_def example_plus_def example_minus_def
      Field_defaults_def)

lemma FooSerializer_built:
  "SerializerMeta_new FooSerializer_attrs (cls_mro Serializer_cls) = Inr FooSerializer_cls"
  by (simp add: SerializerMeta_new_def SerializerMeta_get_fields_def type_new_def
      compile_field_to_tuple_def as_getter_def Field_is_to_value_overridden_def or_name_def
      class_lookup_defs module_class_defs FooSerializer_attrs_def FooSerializer_cls_def
      example_plus_def example_minus_def Field_defaults_def del_keys_def dict_keys_def)

lemma FooSerializer_data:
  "Serializer_data FooSerializer_cls (example_self\<lparr>ser_instance := example_foo\<rparr>) =
     Inr (PDict [(''plus'', PInt 15), (''minus'', PInt (- 5))],
          example_self\<lparr>ser_instance := example_foo,
                        ser_data := PDict [(''plus'', PInt 15), (''minus'', PInt (- 5))]\<rparr>)"
  by (simp add: Serializer_data_def Serializer_to_value_def class_lookup_defs
      FooSerializer_cls_def to_value_with_def Serializer_serialize_def example_self_def
      example_foo_def get_plus_def do_minus_def int_attrs_def)

text \<open>The keyword arguments of \<open>Field.__init__\<close> leave the class-level attributes of a
  field alone, so a scalar field compiles to a record that carries its coercion as the
  converter and does not ask for the serializer.\<close>

lemma set_kwargs_keeps:
  "set_kwargs kwargs f = Inr f' \<Longrightarrow>
     getter_takes_serializer f' = getter_takes_serializer f
   \<and> field_to_value f' = field_to_value f
   \<and> field_as_getter f' = field_as_getter f
   \<and> field_method f' = field_method f"
proof (induction kwargs arbitrary: f)
  case Nil
  then show ?case by simp
next
  case (Cons kw kwargs)
  then show ?case by (cases kw) (auto split: sum.splits)
qed

lemma scalar_field_binds_coercion:
  assumes "scalar_field coerce kwargs = Inr field"
    and "compile_field_to_tuple field name cls =
           Inr (label, getter, to_value, call, required, pass_self)"
  shows "to_value_step to_value = coerce" and "\<not> pass_self"
proof -
  from assms(1) have tv: "field_to_value field = StaticCallable (Callable True coerce)"
    and gts: "\<not> getter_takes_serializer field"
    using set_kwargs_keeps [of kwargs Field_defaults]
    by (auto simp add: scalar_field_def Field_init_def Field_defaults_def split: sum.splits)
  from assms(2) tv show "to_value_step to_value = coerce"
    by (auto simp add: compile_field_to_tuple_def Let_def Field_is_to_value_overridden_def
        to_value_step_def fun_eq_iff split: sum.splits)
  from assms(2) gts show "\<not> pass_self"
    by (auto simp add: compile_field_to_tuple_def Let_def split: sum.splits)
qed

text \<open>
  C7, as the code has it. When the field's \<open>as_getter\<close> returns \<open>None\<close>, the compiled
  record's getter is the class's \<open>default_getter\<close> applied to the field's \<open>attr\<close>, or to
  the name the field was declared under when \<open>attr\<close> is \<open>None\<close> or the empty string; the
  record's name is the field's \<open>label\<close>, or the declared name when \<open>label\<close> is \<open>None\<close> or
  the empty string. \<open>Serializer\<close> has \<open>operator.attrgetter\<close> as its default getter and
  \<open>DictSerializer\<close> has \<open>operator.itemgetter\<close>.
\<close>

theorem default_getter_key_and_label:
  assumes "as_getter field name cls = Inr None"
  shows "compile_field_to_tuple field name cls =
     (case class_default_getter cls
             (case field_attr field of
                None \<Rightarrow> name
              | Some a \<Rightarrow> if a = [] then name else a) of
        Inl e \<Rightarrow> Inl e
      | Inr getter \<Rightarrow>
          Inr ((case field_label field of
                  None \<Rightarrow> name
                | Some l \<Rightarrow> if l = [] then name else l),
               getter,
               (if Field_is_to_value_overridden field
                then Some (to_value_object (field_to_value field)) else None),
               field_call field, field_required field, getter_takes_serializer field))
     \<and> class_default_getter Serializer_cls key = Inr (attrgetter key)
     \<and> class_default_getter DictSerializer_cls key = Inr (itemgetter key)"
  using assms
  by (simp add: compile_field_to_tuple_def or_name_def class_lookup_defs module_class_defs
      split: sum.splits)

text \<open>A field with a source name and a label, on an object serializer.\<close>

theorem default_getter_key_and_label_witness:
  "compile_field_to_tuple example_labelled ''name'' Serializer_cls =
     Inr (''First'', attrgetter ''first_name'', None, False, True, False)"
proof -
  have declines: "as_getter example_labelled ''name'' Serializer_cls = Inr None"
    by (simp add: as_getter_def example_labelled_def Field_defaults_def)
  from default_getter_key_and_label [OF declines, where key = "''first_name''"]
  show ?thesis
    by (simp add: example_labelled_def Field_defaults_def Field_is_to_value_overridden_def)
qed

text \<open>
  A field whose source name and label are both set, to the empty string, on a dict
  serializer: the compiled getter reads the key \<open>foo\<close> (the declared name), which is not
  what the key set as source name holds, and the record's name is \<open>foo\<close>, not the label.
\<close>

theorem empty_source_name_counterexample:
  "field_attr example_empty_names = Some []
   \<and> field_label example_empty_names = Some []
   \<and> as_getter example_empty_names ''foo'' DictSerializer_cls = Inr None
   \<and> compile_field_to_tuple example_empty_names ''foo'' DictSerializer_cls =
       Inr (''foo'', itemgetter ''foo'', None, False, True, False)
   \<and> call_getter1 (itemgetter ''foo'') example_record = Inr (PInt 2)
   \<and> call_getter1 (itemgetter []) example_record = Inr (PInt 1)"
  by (simp add: example_empty_names_def example_record_def Field_defaults_def as_getter_def
      compile_field_to_tuple_def or_name_def Field_is_to_value_overridden_def
      class_lookup_defs module_class_defs itemgetter_def)

section \<open>The identity optimization\<close>












section \<open>Merging the field maps of the ancestors\<close>

lemma keys_setitem:
  "dict_keys (dict_setitem k x d) =
     (if k \<in> set (dict_keys d) then dict_keys d else dict_keys d @ [k])"
  by (induction d) (force simp add: dict_keys_def)+

lemma map_of_setitem: "map_of (dict_setitem k x d) = (map_of d)(k \<mapsto> x)"
  by (induction d) (auto simp add: fun_eq_iff)

lemma keys_update:
  "dict_keys (dict_update d other) = dict_keys d @ unseen (set (dict_keys d)) (dict_keys other)"
proof (induction other arbitrary: d)
  case Nil
  show ?case by (simp add: dict_keys_def)
next
  case (Cons p other)
  obtain k x where p: "p = (k, x)" by (cases p)
  have "dict_keys (p # other) = k # dict_keys other"
    by (simp add: p dict_keys_def)
  then show ?case
    unfolding p by (simp add: Cons.IH keys_setitem insert_absorb)
qed

lemma map_of_update: "map_of (dict_update d other) = map_of d ++ map_of (rev other)"
proof (induction other arbitrary: d)
  case Nil
  show ?case by simp
next
  case (Cons p other)
  obtain k x where p: "p = (k, x)" by (cases p)
  show ?case
    unfolding p
    by (simp add: Cons.IH map_of_setitem map_add_def fun_eq_iff split: option.splits)
qed

lemma get_update:
  "dict_get (dict_update d other) k =
     (case dict_get (rev other) k of Some x \<Rightarrow> Some x | None \<Rightarrow> dict_get d k)"
  by (simp add: dict_get_def map_of_update map_add_def split: option.splits)

lemma get_distinct_rev:
  "distinct (dict_keys d) \<Longrightarrow> dict_get (rev d) k = dict_get d k"
  unfolding dict_get_def dict_keys_def
  by (metis distinct_rev map_of_inject_set rev_map set_rev)

lemma unseen_append: "unseen S (xs @ ys) = unseen S xs @ unseen (S \<union> set xs) ys"
  by (induction xs arbitrary: S) (auto simp add: insert_absorb)

lemma unseen_set: "set (unseen S xs) = set xs - S"
  by (induction xs arbitrary: S) auto

lemma unseen_distinct: "distinct xs \<Longrightarrow> unseen S xs = filter (\<lambda>x. x \<notin> S) xs"
proof (induction xs arbitrary: S)
  case Nil
  show ?case by simp
next
  case (Cons x xs)
  then have "filter (\<lambda>y. y \<notin> insert x S) xs = filter (\<lambda>y. y \<notin> S) xs"
    by (intro filter_cong) auto
  with Cons show ?case by simp
qed

lemma merge_is_fold:
  "merge_field_maps d cs =
     (case ancestor_field_maps cs of
        Inl e \<Rightarrow> Inl e
      | Inr ms \<Rightarrow> Inr (foldl dict_update d ms))"
  by (induction cs arbitrary: d) (auto split: sum.splits)

lemma keys_fold:
  "dict_keys (foldl dict_update d ms) =
     dict_keys d @ unseen (set (dict_keys d)) (concat (map dict_keys ms))"
proof (induction ms arbitrary: d)
  case Nil
  show ?case by simp
next
  case (Cons m ms)
  show ?case
    by (simp add: Cons.IH keys_update unseen_append unseen_set)
qed

lemma get_fields_keys:
  assumes "SerializerMeta_get_fields direct_fields cls = Inr field_map"
    and "ancestor_field_maps (rev (cls_mro cls)) = Inr ms"
  shows "dict_keys field_map =
           first_occurrences (concat (map dict_keys ms) @ dict_keys direct_fields)"
    and "dict_get field_map k =
           (case dict_get (rev direct_fields) k of
              Some field \<Rightarrow> Some field
            | None \<Rightarrow> dict_get (foldl dict_update [] ms) k)"
proof -
  from assms have fm: "field_map = dict_update (foldl dict_update [] ms) direct_fields"
    by (auto simp add: SerializerMeta_get_fields_def merge_is_fold split: sum.splits)
  have empty: "dict_keys ([] :: (string \<times> pyfield) list) = []"
    by (simp add: dict_keys_def)
  show "dict_keys field_map =
          first_occurrences (concat (map dict_keys ms) @ dict_keys direct_fields)"
    unfolding fm first_occurrences_def
    by (simp add: keys_update keys_fold empty unseen_append unseen_set)
  show "dict_get field_map k =
           (case dict_get (rev direct_fields) k of
              Some field \<Rightarrow> Some field
            | None \<Rightarrow> dict_get (foldl dict_update [] ms) k)"
    unfolding fm by (rule get_update)
qed

lemma compile_fields_pointwise:
  "SerializerMeta_compile_fields field_map cls = Inr plan \<Longrightarrow>
   list_all2 (\<lambda>(name, field) t. compile_field_to_tuple field name cls = Inr t) field_map plan"
proof (induction field_map arbitrary: plan)
  case Nil
  then show ?case by simp
next
  case (Cons p field_map)
  obtain name field where p: "p = (name, field)" by (cases p)
  from Cons.prems Cons.IH show ?case
    unfolding p by (auto split: sum.splits)
qed

lemma setitem_new: "k \<notin> set (dict_keys d) \<Longrightarrow> dict_setitem k x d = d @ [(k, x)]"
  by (induction d) (auto simp add: dict_keys_def)

text \<open>A class body is a dict, so its names are distinct; the loop of \<open>__new__\<close> then
  collects the fields of the body in order, and the \<open>del\<close> loop leaves the other entries.\<close>

lemma collect_direct_fields_body:
  "distinct (map fst attrs) \<Longrightarrow> set (map fst attrs) \<inter> set (dict_keys acc) = {} \<Longrightarrow>
   collect_direct_fields attrs acc = acc @ [(n, f). (n, AttrField f) \<leftarrow> attrs]"
proof (induction attrs arbitrary: acc)
  case Nil
  show ?case by simp
next
  case (Cons p attrs)
  obtain n a where p: "p = (n, a)" by (cases p)
  from Cons.prems have fresh: "n \<notin> set (dict_keys acc)" and n: "n \<notin> set (map fst attrs)"
    and d: "distinct (map fst attrs)"
    and rest: "set (map fst attrs) \<inter> set (dict_keys acc) = {}"
    unfolding p by auto
  show ?case
  proof (cases a)
    case (AttrField f)
    from n rest have "set (map fst attrs) \<inter> set (dict_keys (acc @ [(n, f)])) = {}"
      by (auto simp add: dict_keys_def)
    from Cons.IH [OF d this] show ?thesis
      unfolding p AttrField by (simp add: setitem_new [OF fresh])
  qed (use Cons.IH [OF d rest] in \<open>simp_all add: p\<close>)
qed

lemma field_names_of_body:
  "set [n. (n, AttrField f) \<leftarrow> attrs] = {n. \<exists>f. (n, AttrField f) \<in> set attrs}"
  by (auto split: class_attr.splits)

lemma fields_of_body:
  "set [(n, f). (n, AttrField f) \<leftarrow> attrs] = {(n, f). (n, AttrField f) \<in> set attrs}"
  by (auto split: class_attr.splits)

lemma fields_of_body_keys:
  "map fst [(n, f). (n, AttrField f) \<leftarrow> attrs] = [n. (n, AttrField f) \<leftarrow> attrs]"
  by (induction attrs) (auto split: class_attr.splits)

lemma fields_of_body_distinct:
  "distinct (map fst attrs) \<Longrightarrow> distinct [n. (n, AttrField f) \<leftarrow> attrs]"
proof (induction attrs)
  case Nil
  show ?case by simp
next
  case (Cons p attrs)
  obtain n a where p: "p = (n, a)" by (cases p)
  from Cons show ?case
    unfolding p by (cases a) (force simp add: field_names_of_body)+
qed

lemma del_keys_body:
  assumes "distinct (map fst attrs)"
  shows "del_keys [n. (n, AttrField f) \<leftarrow> attrs] attrs =
           [(n, a) \<leftarrow> attrs. \<forall>f. a \<noteq> AttrField f]"
  unfolding del_keys_def
proof (rule filter_cong [OF refl])
  fix p assume p: "p \<in> set attrs"
  obtain n a where na: "p = (n, a)" by (cases p)
  have "(\<exists>f. (n, AttrField f) \<in> set attrs) \<longleftrightarrow> (\<exists>f. a = AttrField f)"
    using p assms unfolding na by (auto dest: eq_key_imp_eq_value)
  then show "(case p of (k, x) \<Rightarrow> k \<notin> set [n. (n, AttrField f) \<leftarrow> attrs]) =
             (case p of (n, a) \<Rightarrow> \<forall>f. a \<noteq> AttrField f)"
    unfolding na by (simp add: field_names_of_body) blast
qed

text \<open>
  C3. When the metaclass builds a class from a body \<open>attrs\<close> and the linearization of its
  bases, let \<open>ms\<close> be the field maps of the ancestors in the order \<open>_get_fields\<close> reads them
  (oldest ancestor first; the class under construction, which holds the entries of the
  body that are not fields, comes last and inherits its map). The class's field map then
  has its names in the order of their first occurrence in \<open>ms\<close> followed by the fields of
  the body; that is, the inherited names stay where they were and only the fields of the
  body whose names no ancestor has are appended, in the order of the body. A name that
  the body declares as a field maps to that field, any other name to the field the
  ancestors give it. The compiled plan has one record per entry of the field map, in the
  same order, compiled from that entry's field.
\<close>

theorem override_keeps_position:
  assumes "SerializerMeta_new attrs bases_mro = Inr cls"
    and "distinct (map fst attrs)"
  shows "\<exists>ms field_map plan.
      ancestor_field_maps
        (rev (cls_mro (type_new [(n, a) \<leftarrow> attrs. \<forall>f. a \<noteq> AttrField f] bases_mro))) = Inr ms
    \<and> class_field_map cls = Inr field_map
    \<and> class_compiled_fields cls = Inr plan
    \<and> dict_keys field_map =
        first_occurrences (concat (map dict_keys ms) @ [n. (n, AttrField f) \<leftarrow> attrs])
    \<and> dict_keys field_map =
        first_occurrences (concat (map dict_keys ms)) @
        [n. (n, AttrField f) \<leftarrow> attrs, n \<notin> set (concat (map dict_keys ms))]
    \<and> (\<forall>n field. (n, AttrField field) \<in> set attrs \<longrightarrow> dict_get field_map n = Some field)
    \<and> (\<forall>n. (\<forall>field. (n, AttrField field) \<notin> set attrs) \<longrightarrow>
           dict_get field_map n = dict_get (foldl dict_update [] ms) n)
    \<and> list_all2 (\<lambda>(name, field) t.
          compile_field_to_tuple field name
            (type_new [(n, a) \<leftarrow> attrs. \<forall>f. a \<noteq> AttrField f] bases_mro) = Inr t)
        field_map plan"
proof -
  define direct where "direct = [(n, f). (n, AttrField f) \<leftarrow> attrs]"
  define real where "real = type_new [(n, a) \<leftarrow> attrs. \<forall>f. a \<noteq> AttrField f] bases_mro"
  have direct_keys: "dict_keys direct = [n. (n, AttrField f) \<leftarrow> attrs]"
    unfolding direct_def dict_keys_def by (rule fields_of_body_keys)
  have collected: "collect_direct_fields attrs [] = direct"
    using collect_direct_fields_body [OF assms(2), of "[]"]
    by (simp add: direct_def dict_keys_def)
  have shell: "type_new (del_keys (dict_keys direct) attrs) bases_mro = real"
    unfolding real_def direct_keys by (simp add: del_keys_body [OF assms(2)])
  from assms(1) obtain field_map plan
    where gf: "SerializerMeta_get_fields direct real = Inr field_map"
      and cf: "SerializerMeta_compile_fields field_map real = Inr plan"
      and cls: "cls = PyClass (issubclass_SerializerBase real)
                 (dict_setitem ''_compiled_fields'' (AttrCompiledFields plan)
                    (dict_setitem ''_field_map'' (AttrFieldMap field_map) (cls_dict real)))
                 (mro_tail real)"
    by (auto simp add: SerializerMeta_new_def Let_def collected shell split: sum.splits)
  from gf obtain ms where ms: "ancestor_field_maps (rev (cls_mro real)) = Inr ms"
    by (auto simp add: SerializerMeta_get_fields_def merge_is_fold split: sum.splits)
  have distinct: "distinct (dict_keys direct)"
    unfolding direct_keys by (rule fields_of_body_distinct [OF assms(2)])
  have stored_map: "class_field_map cls = Inr field_map"
    unfolding cls class_field_map_def class_getattr_def cls_mro_def
    by (simp add: map_of_setitem)
  have stored_plan: "class_compiled_fields cls = Inr plan"
    unfolding cls class_compiled_fields_def class_getattr_def cls_mro_def
    by (simp add: map_of_setitem)
  have keys: "dict_keys field_map =
      first_occurrences (concat (map dict_keys ms) @ [n. (n, AttrField f) \<leftarrow> attrs])"
    using get_fields_keys(1) [OF gf ms] by (simp add: direct_keys)
  have "filter (\<lambda>k. k \<notin> set (concat (map dict_keys ms))) [n. (n, AttrField f) \<leftarrow> attrs] =
        [n. (n, AttrField f) \<leftarrow> attrs, n \<notin> set (concat (map dict_keys ms))]"
    by (induction attrs) (auto split: class_attr.splits)
  then have keys': "dict_keys field_map =
      first_occurrences (concat (map dict_keys ms)) @
      [n. (n, AttrField f) \<leftarrow> attrs, n \<notin> set (concat (map dict_keys ms))]"
    using distinct unfolding keys first_occurrences_def direct_keys
    by (simp add: unseen_append unseen_distinct)
  have vals: "dict_get field_map n =
          (case dict_get direct n of
             Some field \<Rightarrow> Some field
           | None \<Rightarrow> dict_get (foldl dict_update [] ms) n)" for n
    using get_fields_keys(2) [OF gf ms, of n] by (simp add: get_distinct_rev [OF distinct])
  have declared: "dict_get direct n = Some field \<longleftrightarrow> (n, AttrField field) \<in> set attrs"
    for n field
    using distinct unfolding dict_get_def dict_keys_def
    by simp (simp add: direct_def fields_of_body)
  have overridden: "dict_get field_map n = Some field"
    if "(n, AttrField field) \<in> set attrs" for n field
    using that vals [of n] declared [of n field] by simp
  have inherited: "dict_get field_map n = dict_get (foldl dict_update [] ms) n"
    if "\<forall>field. (n, AttrField field) \<notin> set attrs" for n
  proof -
    from that declared [of n] have "dict_get direct n = None"
      by (cases "dict_get direct n") auto
    with vals [of n] show ?thesis by simp
  qed
  from ms stored_map stored_plan keys keys' overridden inherited
    compile_fields_pointwise [OF cf]
  show ?thesis unfolding real_def by blast
qed

text \<open>
  The example base class declares \<open>a\<close> and \<open>b\<close>; the class derived from it declares \<open>c\<close>
  and then \<open>a\<close> again. In the class the metaclass builds, \<open>a\<close> keeps the first place
  with the new field (optional, with a converter), \<open>b\<close> is inherited and \<open>c\<close> comes
  last, in the field map and in the compiled plan.
\<close>

theorem override_keeps_position_witness:
  "SerializerMeta_new example_base_attrs (cls_mro Serializer_cls) = Inr example_base_cls
   \<and> (\<exists>cls field_map.
        SerializerMeta_new example_derived_attrs (cls_mro example_base_cls) = Inr cls
      \<and> class_field_map cls = Inr field_map
      \<and> field_map = [(''a'', example_override), (''b'', Field_defaults), (''c'', Field_defaults)]
      \<and> class_compiled_fields cls =
          Inr [(''a'', attrgetter ''a'', Some (Callable True describe_value), False, False, False),
               (''b'', attrgetter ''b'', None, False, True, False),
               (''c'', attrgetter ''c'', None, False, True, False)])"
proof -
  have body: "distinct (map fst example_derived_attrs)"
    by (simp add: example_derived_attrs_def)
  have others: "[(n, a) \<leftarrow> example_derived_attrs. \<forall>f. a \<noteq> AttrField f] = []"
    by (simp add: example_derived_attrs_def)
  from override_keeps_position [OF example_derived_built body] obtain ms field_map plan
    where ms: "ancestor_field_maps (rev (cls_mro (type_new [] (cls_mro example_base_cls)))) = Inr ms"
      and stored: "class_field_map example_derived_cls = Inr field_map"
                  "class_compiled_fields example_derived_cls = Inr plan"
      and keys: "dict_keys field_map =
                   first_occurrences (concat (map dict_keys ms) @
                     [n. (n, AttrField f) \<leftarrow> example_derived_attrs])"
      and overridden: "\<And>n field. (n, AttrField field) \<in> set example_derived_attrs \<Longrightarrow>
                   dict_get field_map n = Some field"
      and inherited: "\<And>n. \<forall>field. (n, AttrField field) \<notin> set example_derived_attrs \<Longrightarrow>
                   dict_get field_map n = dict_get (foldl dict_update [] ms) n"
      and plan: "list_all2 (\<lambda>(name, field) t.
                   compile_field_to_tuple field name
                     (type_new [] (cls_mro example_base_cls)) = Inr t)
                   field_map plan"
    unfolding others by blast
  have "ancestor_field_maps (rev (cls_mro (type_new [] (cls_mro example_base_cls)))) =
        Inr [[], [], [(''a'', Field_defaults), (''b'', Field_defaults)],
             [(''a'', Field_defaults), (''b'', Field_defaults)]]"
    by (simp add: type_new_def example_base_cls_def class_lookup_defs module_class_defs)
  with ms have ms_val: "ms = [[], [], [(''a'', Field_defaults), (''b'', Field_defaults)],
             [(''a'', Field_defaults), (''b'', Field_defaults)]]"
    by simp
  have "dict_keys field_map = [''a'', ''b'', ''c'']"
    unfolding keys ms_val
    by (simp add: first_occurrences_def dict_keys_def example_derived_attrs_def)
  then obtain x y z where fm: "field_map = [(''a'', x), (''b'', y), (''c'', z)]"
    by (auto simp add: dict_keys_def map_eq_Cons_conv)
  from overridden [of "''a''" example_override] have "x = example_override"
    by (simp add: fm dict_get_def example_derived_attrs_def)
  moreover from overridden [of "''c''" Field_defaults] have "z = Field_defaults"
    by (simp add: fm dict_get_def example_derived_attrs_def)
  moreover from inherited [of "''b''"] have "y = Field_defaults"
    by (simp add: fm ms_val dict_get_def example_derived_attrs_def)
  ultimately have fm_val:
    "field_map = [(''a'', example_override), (''b'', Field_defaults), (''c'', Field_defaults)]"
    by (simp add: fm)
  from plan have "plan =
      [(''a'', attrgetter ''a'', Some (Callable True describe_value), False, False, False),
       (''b'', attrgetter ''b'', None, False, True, False),
       (''c'', attrgetter ''c'', None, False, True, False)]"
    unfolding fm_val
    by (auto simp add: list_all2_Cons1 compile_field_to_tuple_def as_getter_def or_name_def
        Field_is_to_value_overridden_def type_new_def example_base_cls_def class_lookup_defs
        module_class_defs example_override_def Field_defaults_def)
  with stored fm_val example_derived_built example_base_built show ?thesis
    by blast
qed

end
